theory Spec2Isabelle
  imports Complex_Main "HOL-Library.AList"
begin

section \<open>The session-aware proxy of \<^verbatim>\<open>BaseImage/proxy/proxy.go\<close>\<close>

text \<open>
  The proxy keeps one process-wide session (\<^verbatim>\<open>activeSession\<close>), establishes it against the
  marketplace when it is missing or older than 30 minutes, and forwards chat-completion
  requests, relaying the answer buffered or line by line.

  Everything outside the Go source is an input of the model: the environment variables,
  the clock, and the outcome of every library or network call (\<^verbatim>\<open>http.Get\<close>,
  \<^verbatim>\<open>http.Post\<close>, \<^verbatim>\<open>client.Do\<close>, \<^verbatim>\<open>json.Marshal\<close>, the JSON decoders).
  Every function returns, next to its result, the list of outbound calls it made, in order.
  Log lines written with \<^verbatim>\<open>log.Printf\<close> are not part of the model.
\<close>

subsection \<open>JSON documents\<close>

text \<open>
  What \<^verbatim>\<open>encoding/json\<close> decodes into \<^verbatim>\<open>interface{}\<close>: nil, bool, float64 (read as the
  real number it denotes), string, slice and map. A Go map is listed as an association list
  with distinct keys.
\<close>

datatype json =
    JNull
  | JBool bool
  | JNumber real
  | JString string
  | JArray "json list"
  | JObject "(string \<times> json) list"

type_synonym jobject = "(string \<times> json) list"





subsection \<open>Sessions and time\<close>

text \<open>Instants are nanoseconds on the process clock; a \<^verbatim>\<open>time.Duration\<close> is an int64 of
  nanoseconds and \<^verbatim>\<open>Time.Sub\<close> saturates at its bounds.\<close>

definition minDuration :: int where
  "minDuration = - (2 ^ 63)"

definition maxDuration :: int where
  "maxDuration = 2 ^ 63 - 1"

definition Minute :: int where
  "Minute = 60 * 1000000000"

definition Since :: "int \<Rightarrow> int \<Rightarrow> int" where
  "Since now t =
     (let d = now - t
      in if d < minDuration then minDuration
         else if maxDuration < d then maxDuration
         else d)"

record MorpheusSession =
  SessionID :: string
  ModelID :: string
  LastUsed :: int

text \<open>The package-level variable \<^verbatim>\<open>activeSession\<close>; \<open>None\<close> is the nil pointer.\<close>

record globals =
  activeSession :: "MorpheusSession option"

subsection \<open>HTTP headers, backend responses and the response writer\<close>

type_synonym header = "(string \<times> string list) list"

definition headerValues :: "header \<Rightarrow> string \<Rightarrow> string list" where
  "headerValues h key = (case map_of h key of None \<Rightarrow> [] | Some vs \<Rightarrow> vs)"

text \<open>\<^verbatim>\<open>Header.Set\<close> and \<^verbatim>\<open>Header.Add\<close>. Every key the proxy passes is already in canonical
  MIME form (response keys come out of the HTTP client's parser), so canonicalisation is the
  identity on them.\<close>

definition headerSet :: "string \<Rightarrow> string \<Rightarrow> header \<Rightarrow> header" where
  "headerSet key v h = AList.update key [v] h"

definition headerAdd :: "string \<Rightarrow> string \<Rightarrow> header \<Rightarrow> header" where
  "headerAdd key v h = AList.update key (headerValues h key @ [v]) h"

text \<open>A backend response: \<open>BodyErr\<close> says that reading the body ends with an error other than
  end of file, after the bytes of \<open>Body\<close> have been delivered.\<close>

record response =
  StatusCode :: nat
  Header :: header
  Body :: string
  BodyErr :: bool

datatype chunk = Write string | Flush

text \<open>The \<^verbatim>\<open>http.ResponseWriter\<close> of one request: the mutable header map, the status line once
  it is sent together with the headers that went out with it, the informational (1xx)
  responses sent before it, the writes and flushes in order, and whether the writer
  implements \<^verbatim>\<open>http.Flusher\<close>.\<close>

record ResponseWriter =
  wHeader :: header
  status :: "nat option"
  sentHeader :: header
  informational :: "(nat \<times> header) list"
  out :: "chunk list"
  flusher :: bool

definition newResponseWriter :: "bool \<Rightarrow> ResponseWriter" where
  "newResponseWriter f =
     \<lparr>wHeader = [], status = None, sentHeader = [], informational = [], out = [],
      flusher = f\<rparr>"

text \<open>The status line goes out with the headers of that moment.\<close>

definition sendStatus :: "nat \<Rightarrow> ResponseWriter \<Rightarrow> ResponseWriter" where
  "sendStatus code w = w\<lparr>status := Some code, sentHeader := wHeader w\<rparr>"

text \<open>\<^verbatim>\<open>WriteHeader\<close> of \<^verbatim>\<open>net/http\<close>: a call after the status line is ignored; otherwise a
  code below 100 or above 999 panics (\<open>None\<close>), a 1xx code other than 101 sends an
  informational response and leaves the status line open, and any other code is the
  status line. \<^verbatim>\<open>Write\<close> and \<^verbatim>\<open>Flush\<close> send status 200 first when none was sent.\<close>

definition WriteHeader :: "nat \<Rightarrow> ResponseWriter \<Rightarrow> ResponseWriter option" where
  "WriteHeader code w =
     (if status w \<noteq> None then Some w
      else if code < 100 \<or> 999 < code then None
      else if 100 \<le> code \<and> code \<le> 199 \<and> code \<noteq> 101
      then Some (w\<lparr>informational := informational w @ [(code, wHeader w)]\<rparr>)
      else Some (sendStatus code w))"

definition WriteBytes :: "string \<Rightarrow> ResponseWriter \<Rightarrow> ResponseWriter" where
  "WriteBytes s w =
     (let w' = (if status w = None then sendStatus 200 w else w)
      in w'\<lparr>out := out w' @ [Write s]\<rparr>)"

definition FlushWriter :: "ResponseWriter \<Rightarrow> ResponseWriter" where
  "FlushWriter w =
     (let w' = (if status w = None then sendStatus 200 w else w)
      in w'\<lparr>out := out w' @ [Flush]\<rparr>)"

text \<open>A handler answers, panics (caught by the server, which answers nothing), or the
  process has ended inside \<^verbatim>\<open>getModelID\<close>.\<close>

datatype handled = Responded ResponseWriter | Panicked | Exited

fun chunkBytes :: "chunk \<Rightarrow> string" where
  "chunkBytes (Write s) = s"
| "chunkBytes Flush = []"

definition written :: "ResponseWriter \<Rightarrow> string" where
  "written w = concat (map chunkBytes (out w))"

subsection \<open>The outside world\<close>

datatype probe = ProbeError | ProbeStatus nat

text \<open>The session-creation POST: a transport error, a body the decoder rejects, or a body
  decoded into the struct, whose \<^verbatim>\<open>sessionID\<close> field is given (empty when absent).\<close>

datatype session_reply = PostError | PostUndecodable | PostSessionID string

datatype forward_reply = DoError | DoResponse response

record world =
  MODEL_ID :: string
  MARKETPLACE_URL :: string
  clock :: int
  clockStore :: int
  sessionMarshal :: bool
  healthcheck :: probe
  sessionPost :: session_reply
  reachable :: bool
  bodyMarshal :: bool
  newRequest :: bool
  forward :: forward_reply

text \<open>Outbound calls, and the one line the health probe prints on standard output.\<close>

datatype effect =
    HealthGet string
  | PrintHealthFailed
  | SessionPost string jobject
  | ReachGet string
  | ForwardPost string header jobject

fun isForwardCall :: "effect \<Rightarrow> bool" where
  "isForwardCall (HealthGet u) = False"
| "isForwardCall PrintHealthFailed = False"
| "isForwardCall (SessionPost u b) = False"
| "isForwardCall (ReachGet u) = True"
| "isForwardCall (ForwardPost u h b) = True"

fun isForwardPost :: "effect \<Rightarrow> bool" where
  "isForwardPost (ForwardPost u h b) = True"
| "isForwardPost e = False"

datatype error =
    MarshalSessionRequest
  | EstablishSession
  | DecodeSession
  | InvalidSessionID
  | MarketplaceURLNotSet
  | MarketplaceNotAccessible
  | MarshalRequestBody
  | CreateRequest
  | NoActiveSession
  | ForwardFailed

subsection \<open>ensureSession\<close>

text \<open>\<^verbatim>\<open>getModelID\<close> ends the process with \<^verbatim>\<open>log.Fatal\<close> when \<^verbatim>\<open>MODEL_ID\<close> is empty: \<open>None\<close>.\<close>

definition getModelID :: "world \<Rightarrow> string option" where
  "getModelID w = (if MODEL_ID w = [] then None else Some (MODEL_ID w))"

datatype ensure_result = NoError | Error error | ProcessExit

definition healthURL :: string where
  "healthURL = ''http://marketplace:9000/healthcheck''"

definition sessionURL :: "string \<Rightarrow> string" where
  "sessionURL modelID = ''http://marketplace:9000/blockchain/models/'' @ modelID @ ''/session''"

definition sessionRequestBody :: jobject where
  "sessionRequestBody = [(''sessionDuration'', JNumber 3600), (''failover'', JBool False)]"

definition healthProbe :: "world \<Rightarrow> effect list" where
  "healthProbe w =
     HealthGet healthURL #
     (if healthcheck w = ProbeError \<or> healthcheck w \<noteq> ProbeStatus 200
      then [PrintHealthFailed] else [])"

definition ensureSession :: "world \<Rightarrow> globals \<Rightarrow> ensure_result \<times> globals \<times> effect list" where
  "ensureSession w g =
     (if (case activeSession g of
            None \<Rightarrow> False
          | Some s \<Rightarrow> Since (clock w) (LastUsed s) < 30 * Minute)
      then (NoError, g, [])
      else
        (case getModelID w of
           None \<Rightarrow> (ProcessExit, g, [])
         | Some modelID \<Rightarrow>
             if \<not> sessionMarshal w then (Error MarshalSessionRequest, g, [])
             else
               (let calls = healthProbe w @ [SessionPost (sessionURL modelID) sessionRequestBody]
                in case sessionPost w of
                     PostError \<Rightarrow> (Error EstablishSession, g, calls)
                   | PostUndecodable \<Rightarrow> (Error DecodeSession, g, calls)
                   | PostSessionID sid \<Rightarrow>
                       (let g' = g\<lparr>activeSession :=
                                     Some \<lparr>SessionID = sid, ModelID = modelID,
                                           LastUsed = clockStore w\<rparr>\<rparr>
                        in if (case activeSession g' of
                                 None \<Rightarrow> True
                               | Some s \<Rightarrow> SessionID s = [])
                           then (Error InvalidSessionID, g', calls)
                           else (NoError, g', calls)))))"

subsection \<open>Answering the client\<close>

text \<open>\<^verbatim>\<open>json.NewEncoder(w).Encode\<close> of the one-entry map: the object and a line feed. The
  messages passed are string constants without characters that JSON escapes.\<close>

definition encodeError :: "string \<Rightarrow> string" where
  \<open>encodeError message = ''{"error":"'' @ message @ ''"}'' @ [CHR 0x0A]\<close>

text \<open>Every caller returns right after \<open>respondWithError\<close>, so its result is the handler's.\<close>

definition respondWithError :: "ResponseWriter \<Rightarrow> nat \<Rightarrow> string \<Rightarrow> handled" where
  "respondWithError w statusCode message =
     (case WriteHeader statusCode
             (w\<lparr>wHeader := headerSet ''Content-Type'' ''application/json'' (wHeader w)\<rparr>) of
        None \<Rightarrow> Panicked
      | Some w' \<Rightarrow> Responded (WriteBytes (encodeError message) w'))"

definition setStreamingHeaders :: "ResponseWriter \<Rightarrow> ResponseWriter" where
  "setStreamingHeaders w =
     w\<lparr>wHeader :=
         headerSet ''Connection'' ''keep-alive''
           (headerSet ''Cache-Control'' ''no-cache''
              (headerSet ''Content-Type'' ''text/event-stream'' (wHeader w)))\<rparr>"

fun addValues :: "string \<Rightarrow> string list \<Rightarrow> header \<Rightarrow> header" where
  "addValues key [] h = h"
| "addValues key (v # vs) h = addValues key vs (headerAdd key v h)"

fun copyHeaderEntries :: "header \<Rightarrow> header \<Rightarrow> header" where
  "copyHeaderEntries [] h = h"
| "copyHeaderEntries ((key, vs) # rest) h = copyHeaderEntries rest (addValues key vs h)"

definition copyHeaders :: "ResponseWriter \<Rightarrow> header \<Rightarrow> ResponseWriter" where
  "copyHeaders w headers = w\<lparr>wHeader := copyHeaderEntries headers (wHeader w)\<rparr>"

text \<open>\<^verbatim>\<open>io.Copy\<close>: the bytes of the body reach the writer (nothing is written for an empty
  body); how they are cut into chunks is not observable in \<open>written\<close>.\<close>

definition copyBody :: "ResponseWriter \<Rightarrow> string \<Rightarrow> ResponseWriter" where
  "copyBody w b = (if b = [] then w else WriteBytes b w)"

subsection \<open>forwardRequest\<close>

definition TrimSuffix :: "string \<Rightarrow> string \<Rightarrow> string" where
  "TrimSuffix s suffix =
     (if length suffix \<le> length s \<and> drop (length s - length suffix) s = suffix
      then take (length s - length suffix) s else s)"

definition forwardRequest ::
  "world \<Rightarrow> globals \<Rightarrow> jobject \<Rightarrow> (error + response) \<times> effect list" where
  "forwardRequest w g requestBody =
     (let marketplaceURL = MARKETPLACE_URL w
      in if marketplaceURL = [] then (Inl MarketplaceURLNotSet, [])
         else
           (let probed = [ReachGet (TrimSuffix marketplaceURL ''/v1/chat/completions'')]
            in if \<not> reachable w then (Inl MarketplaceNotAccessible, probed)
               else if \<not> bodyMarshal w then (Inl MarshalRequestBody, probed)
               else if \<not> newRequest w then (Inl CreateRequest, probed)
               else
                 (let h = headerSet ''Content-Type'' ''application/json'' []
                  in case activeSession g of
                       None \<Rightarrow> (Inl NoActiveSession, probed)
                     | Some s \<Rightarrow>
                         if SessionID s = [] then (Inl NoActiveSession, probed)
                         else
                           (let h' = headerSet ''Session_id'' (SessionID s) h;
                                calls = probed @ [ForwardPost marketplaceURL h' requestBody]
                            in case forward w of
                                 DoError \<Rightarrow> (Inl ForwardFailed, calls)
                               | DoResponse resp \<Rightarrow>
                                   (Inr (if StatusCode resp \<noteq> 200
                                         then resp\<lparr>BodyErr := False\<rparr> else resp),
                                    calls)))))"

subsection \<open>Relaying the response\<close>

definition handleNonStreamingRequest ::
  "world \<Rightarrow> globals \<Rightarrow> ResponseWriter \<Rightarrow> jobject \<Rightarrow> handled \<times> effect list" where
  "handleNonStreamingRequest w g wr requestBody =
     (case forwardRequest w g requestBody of
        (Inl err, calls) \<Rightarrow> (respondWithError wr 500 ''Failed to forward request'', calls)
      | (Inr resp, calls) \<Rightarrow>
          (case WriteHeader (StatusCode resp) (copyHeaders wr (Header resp)) of
             None \<Rightarrow> (Panicked, calls)
           | Some wr' \<Rightarrow> (Responded (copyBody wr' (Body resp)), calls)))"

text \<open>\<^verbatim>\<open>bufio.Scanner\<close> with \<^verbatim>\<open>ScanLines\<close>: lines end at a line feed, one trailing carriage
  return is dropped, a last line without line feed counts when it is not empty, and a line
  that does not fit the 64 KiB buffer stops the scan with an error (\<open>False\<close>).\<close>

definition MaxScanTokenSize :: nat where
  "MaxScanTokenSize = 64 * 1024"

definition dropCR :: "string \<Rightarrow> string" where
  "dropCR s = (if s \<noteq> [] \<and> last s = CHR 0x0D then butlast s else s)"

fun scanLines :: "string \<Rightarrow> string \<Rightarrow> string list \<times> bool" where
  "scanLines cur [] =
     (if cur = [] then ([], True)
      else if MaxScanTokenSize \<le> length cur then ([], False)
      else ([dropCR cur], True))"
| "scanLines cur (c # cs) =
     (if c = CHR 0x0A
      then (if MaxScanTokenSize \<le> length cur then ([], False)
            else (case scanLines [] cs of (ls, ok) \<Rightarrow> (dropCR cur # ls, ok)))
      else scanLines (cur @ [c]) cs)"

definition writeLine :: "string \<Rightarrow> ResponseWriter \<Rightarrow> ResponseWriter" where
  "writeLine l w = FlushWriter (WriteBytes (l @ [CHR 0x0A]) w)"

definition handleStreamingRequest ::
  "world \<Rightarrow> globals \<Rightarrow> ResponseWriter \<Rightarrow> jobject \<Rightarrow> handled \<times> effect list" where
  "handleStreamingRequest w g wr requestBody =
     (case forwardRequest w g requestBody of
        (Inl err, calls) \<Rightarrow>
          (respondWithError wr 500 ''Failed to forward streaming request'', calls)
      | (Inr resp, calls) \<Rightarrow>
          (let wr1 = setStreamingHeaders wr
           in if \<not> flusher wr1
              then (respondWithError wr1 500 ''Streaming unsupported'', calls)
              else
                (case scanLines [] (Body resp) of
                   (ls, ok) \<Rightarrow>
                     (let wr2 = fold writeLine ls wr1
                      in if \<not> ok \<or> BodyErr resp
                         then (respondWithError wr2 500 ''Error reading streaming response'',
                               calls)
                         else (Responded wr2, calls)))))"

subsection \<open>ProxyChatCompletion\<close>

text \<open>The inbound request: what \<^verbatim>\<open>io.ReadAll\<close> returns (\<open>None\<close> for a read error) and what the
  decoder makes of those bytes as a \<^verbatim>\<open>map[string]interface{}\<close>: an error (malformed text or
  a value that is not an object), the nil map (the JSON text \<^verbatim>\<open>null\<close>), or the map.\<close>

datatype decoded = DecodeError | DecodeNil | DecodeMap jobject

record request =
  ReadAll :: "string option"
  Decode :: decoded


definition streamFlag :: "jobject \<Rightarrow> bool" where
  "streamFlag requestBody =
     (case map_of requestBody ''stream'' of Some (JBool b) \<Rightarrow> b | _ \<Rightarrow> False)"

definition ProxyChatCompletion ::
  "world \<Rightarrow> globals \<Rightarrow> ResponseWriter \<Rightarrow> request \<Rightarrow> handled \<times> globals \<times> effect list" where
  "ProxyChatCompletion w g wr r =
     (case ReadAll r of
        None \<Rightarrow> (respondWithError wr 500 ''Failed to read request body'', g, [])
      | Some bodyBytes \<Rightarrow>
          (case ensureSession w g of
             (ProcessExit, g1, calls) \<Rightarrow> (Exited, g1, calls)
           | (Error err, g1, calls) \<Rightarrow>
               (respondWithError wr 500 ''Failed to establish session'', g1, calls)
           | (NoError, g1, calls) \<Rightarrow>
               (case Decode r of
                  DecodeError \<Rightarrow>
                    (respondWithError wr 400 ''Invalid request body'', g1, calls)
                | DecodeNil \<Rightarrow>
                    if MODEL_ID w = []
                    then (respondWithError wr 500 ''MODEL_ID environment variable not set'',
                          g1, calls)
                    else (Panicked, g1, calls)
                | DecodeMap m \<Rightarrow>
                    if MODEL_ID w = []
                    then (respondWithError wr 500 ''MODEL_ID environment variable not set'',
                          g1, calls)
                    else
                      (let requestBody = AList.update ''model'' (JString (MODEL_ID w)) m
                       in case activeSession g1 of
                            None \<Rightarrow> (Panicked, g1, calls)
                          | Some s \<Rightarrow>
                              (case (if streamFlag requestBody
                                     then handleStreamingRequest w g1 wr requestBody
                                     else handleNonStreamingRequest w g1 wr requestBody) of
                                 (res, calls') \<Rightarrow> (res, g1, calls @ calls'))))))"

subsection \<open>Scenarios\<close>

text \<open>A marketplace that answers every call, a process without a session, one holding the
  session \<open>sid\<close> created at instant 0, and a request whose body is the text \<^verbatim>\<open>not-json\<close>.\<close>

definition baseWorld :: world where
  \<open>baseWorld =
     \<lparr>MODEL_ID = ''model-x'',
      MARKETPLACE_URL = ''http://marketplace:9000/v1/chat/completions'',
      clock = 0, clockStore = 0, sessionMarshal = True,
      healthcheck = ProbeStatus 200, sessionPost = PostSessionID ''sess-1'',
      reachable = True, bodyMarshal = True, newRequest = True,
      forward = DoResponse
        \<lparr>StatusCode = 201, Header = [(''Content-Type'', [''application/json''])],
         Body = ''{"id":"abc"}'', BodyErr = False\<rparr>\<rparr>\<close>

definition noSession :: globals where
  "noSession = \<lparr>activeSession = None\<rparr>"

definition withSession :: "string \<Rightarrow> globals" where
  "withSession sid =
     \<lparr>activeSession = Some \<lparr>SessionID = sid, ModelID = ''model-x'', LastUsed = 0\<rparr>\<rparr>"

definition notJson :: request where
  "notJson = \<lparr>ReadAll = Some ''not-json'', Decode = DecodeError\<rparr>"

text \<open>A chat request that names another model, and a marketplace that answers the forward
  POST with three server-sent events.\<close>

definition chatRequest :: request where
  \<open>chatRequest =
     \<lparr>ReadAll = Some ''{"messages":[],"stream":false,"model":"other"}'',
      Decode = DecodeMap [(''messages'', JArray []), (''stream'', JBool False),
                          (''model'', JString ''other'')]\<rparr>\<close>

definition sseWorld :: world where
  "sseWorld = baseWorld\<lparr>forward := DoResponse
     \<lparr>StatusCode = 200, Header = [(''Content-Type'', [''text/event-stream''])],
      Body = ''data: A'' @ [CHR 0x0A] @ ''data: B'' @ [CHR 0x0A] @ ''data: [DONE]'' @ [CHR 0x0A],
      BodyErr = False\<rparr>\<rparr>"

text \<open>A marketplace that answers the forward POST with a given status code and body, and two
  clients: one sends the number \<open>2 ^ 53 + 1\<close>, the other a chat request with a temperature.\<close>

definition replyWorld :: "nat \<Rightarrow> string \<Rightarrow> world" where
  "replyWorld code b =
     baseWorld\<lparr>forward := DoResponse
       \<lparr>StatusCode = code, Header = [(''Content-Type'', [''application/json''])],
        Body = b, BodyErr = False\<rparr>\<rparr>"





section \<open>Properties\<close>

subsection \<open>Auxiliary facts\<close>

lemma Since_lt_30min: "(Since now t < 30 * Minute) = (now - t < 30 * Minute)"
  by (simp add: Since_def Let_def minDuration_def maxDuration_def Minute_def)

lemma respondWithError_fresh:
  assumes "status w = None" and "200 \<le> c" and "c \<le> 999"
  shows "\<exists>w'. respondWithError w c m = Responded w' \<and> status w' = Some c \<and>
              sentHeader w' = headerSet ''Content-Type'' ''application/json'' (wHeader w) \<and>
              written w' = written w @ encodeError m"
  using assms
  by (simp add: respondWithError_def WriteHeader_def WriteBytes_def sendStatus_def Let_def
        written_def)

lemma ensureSession_calls:
  "c \<in> set (snd (snd (ensureSession w g))) \<Longrightarrow> \<not> isForwardCall c"
  by (auto simp: ensureSession_def healthProbe_def Let_def
           split: option.splits if_splits session_reply.splits)




lemma headerValues_headerAdd:
  "headerValues (headerAdd key v h) k =
     (if k = key then headerValues h key @ [v] else headerValues h k)"
  by (simp add: headerAdd_def headerValues_def update_conv')

lemma headerValues_addValues:
  "headerValues (addValues key vs h) k =
     (if k = key then headerValues h key @ vs else headerValues h k)"
  by (induction vs arbitrary: h) (simp_all add: headerValues_headerAdd)

lemma headerValues_absent: "k \<notin> fst ` set h \<Longrightarrow> headerValues h k = []"
proof -
  assume "k \<notin> fst ` set h"
  then have "map_of h k = None" by (simp add: map_of_eq_None_iff)
  then show ?thesis by (simp add: headerValues_def)
qed

lemma headerValues_copyHeaderEntries:
  "distinct (map fst hs) \<Longrightarrow>
   headerValues (copyHeaderEntries hs h) k = headerValues h k @ headerValues hs k"
proof (induction hs arbitrary: h)
  case Nil
  then show ?case by (simp add: headerValues_def)
next
  case (Cons e hs)
  obtain key vs where e: "e = (key, vs)" by (cases e)
  from Cons.prems e have d: "distinct (map fst hs)" and nk: "key \<notin> fst ` set hs" by auto
  show ?case
  proof (cases "k = key")
    case True
    with nk have "headerValues hs k = []" by (simp add: headerValues_absent)
    with True e Cons.IH [OF d] show ?thesis
      by (simp add: headerValues_addValues) (simp add: headerValues_def)
  next
    case False
    with e Cons.IH [OF d] show ?thesis
      by (simp add: headerValues_addValues) (simp add: headerValues_def)
  qed
qed

lemma forwardRequest_response:
  assumes "MARKETPLACE_URL w \<noteq> []" and "reachable w" and "bodyMarshal w" and "newRequest w"
    and "activeSession g = Some s" and "SessionID s \<noteq> []"
    and "forward w = DoResponse resp"
  shows "forwardRequest w g body =
           (Inr (if StatusCode resp \<noteq> 200 then resp\<lparr>BodyErr := False\<rparr> else resp),
            [ReachGet (TrimSuffix (MARKETPLACE_URL w) ''/v1/chat/completions''),
             ForwardPost (MARKETPLACE_URL w)
               [(''Content-Type'', [''application/json'']), (''Session_id'', [SessionID s])]
               body])"
  using assms by (simp add: forwardRequest_def Let_def headerSet_def)

lemma scanLines_append:
  "CHR 0x0A \<notin> set l \<Longrightarrow> scanLines cur (l @ rest) = scanLines (cur @ l) rest"
  by (induction l arbitrary: cur) auto

lemma scanLines_lines:
  assumes "\<forall>l \<in> set ls. CHR 0x0A \<notin> set l \<and> (l = [] \<or> last l \<noteq> CHR 0x0D) \<and>
                        length l < MaxScanTokenSize"
  shows "scanLines [] (concat (map (\<lambda>l. l @ [CHR 0x0A]) ls)) = (ls, True)"
  using assms
proof (induction ls)
  case Nil
  then show ?case by simp
next
  case (Cons l ls)
  then have l: "CHR 0x0A \<notin> set l" "l = [] \<or> last l \<noteq> CHR 0x0D" "length l < MaxScanTokenSize"
    and rest: "scanLines [] (concat (map (\<lambda>l. l @ [CHR 0x0A]) ls)) = (ls, True)"
    by simp_all
  have "scanLines [] (l @ CHR 0x0A # concat (map (\<lambda>l. l @ [CHR 0x0A]) ls)) =
        scanLines l (CHR 0x0A # concat (map (\<lambda>l. l @ [CHR 0x0A]) ls))"
    using scanLines_append [OF l(1), of "[]"] by simp
  also have "\<dots> = (dropCR l # ls, True)" using l(3) rest by simp
  also have "dropCR l = l" using l(2) by (auto simp: dropCR_def)
  finally show ?case by simp
qed

lemma writeLine_fields:
  "out (writeLine l w) = out w @ [Write (l @ [CHR 0x0A]), Flush]"
  "wHeader (writeLine l w) = wHeader w"
  "status (writeLine l w) = (if status w = None then Some 200 else status w)"
  "sentHeader (writeLine l w) = (if status w = None then wHeader w else sentHeader w)"
  by (simp_all add: writeLine_def FlushWriter_def WriteBytes_def sendStatus_def Let_def)

lemma fold_writeLine_out:
  "out (fold writeLine ls w) = out w @ concat (map (\<lambda>l. [Write (l @ [CHR 0x0A]), Flush]) ls)"
  by (induction ls arbitrary: w) (simp_all add: writeLine_fields)

lemma fold_writeLine_wHeader: "wHeader (fold writeLine ls w) = wHeader w"
  by (induction ls arbitrary: w) (simp_all add: writeLine_fields)

lemma fold_writeLine_sent:
  "status w \<noteq> None \<Longrightarrow>
   status (fold writeLine ls w) = status w \<and> sentHeader (fold writeLine ls w) = sentHeader w"
  by (induction ls arbitrary: w) (simp_all add: writeLine_fields)

lemma fold_writeLine_first:
  "status w = None \<Longrightarrow> ls \<noteq> [] \<Longrightarrow>
   status (fold writeLine ls w) = Some 200 \<and> sentHeader (fold writeLine ls w) = wHeader w"
proof (cases ls)
  case Nil
  assume "ls \<noteq> []" with Nil show ?thesis by simp
next
  case (Cons l ls')
  assume n: "status w = None"
  have "status (writeLine l w) \<noteq> None" using n by (simp add: writeLine_fields)
  from fold_writeLine_sent [OF this, of ls'] n Cons show ?thesis
    by (simp add: writeLine_fields)
qed









subsection \<open>Session reuse\<close>

text \<open>
  C3. While a session is stored whose \<open>LastUsed\<close> lies less than 30 minutes before the clock
  reading, \<open>ensureSession\<close> returns success at once: it makes no call and leaves the stored
  session as it is.
\<close>

theorem ensureSession_fast_path:
  assumes "activeSession g = Some s" and "clock w - LastUsed s < 30 * Minute"
  shows "ensureSession w g = (NoError, g, [])"
  using assms by (simp add: ensureSession_def Since_lt_30min)

theorem ensureSession_fast_path_witness:
  "activeSession (withSession ''sess-0'') =
     Some \<lparr>SessionID = ''sess-0'', ModelID = ''model-x'', LastUsed = 0\<rparr> \<and>
   clock (baseWorld\<lparr>clock := 29 * Minute\<rparr>) -
     LastUsed \<lparr>SessionID = ''sess-0'', ModelID = ''model-x'', LastUsed = 0\<rparr> < 30 * Minute \<and>
   ensureSession (baseWorld\<lparr>clock := 29 * Minute\<rparr>) (withSession ''sess-0'') =
     (NoError, withSession ''sess-0'', [])"
proof -
  have a: "activeSession (withSession ''sess-0'') =
     Some \<lparr>SessionID = ''sess-0'', ModelID = ''model-x'', LastUsed = 0\<rparr>"
    by (simp add: withSession_def)
  have b: "clock (baseWorld\<lparr>clock := 29 * Minute\<rparr>) -
     LastUsed \<lparr>SessionID = ''sess-0'', ModelID = ''model-x'', LastUsed = 0\<rparr> < 30 * Minute"
    by (simp add: Minute_def)
  from ensureSession_fast_path [OF a b] a b show ?thesis by simp
qed

subsection \<open>An empty session id\<close>

text \<open>
  C1. A session-creation reply with the empty \<^verbatim>\<open>sessionID\<close> makes \<open>ensureSession\<close> return an
  error, but only after the record with the empty id and a new \<open>LastUsed\<close> has been stored:
  one minute later \<open>ensureSession\<close> takes the fast path on that record and reports success
  without any session-creation call, and a chat request of that moment gets no further than
  the reachability probe of \<open>forwardRequest\<close>.
\<close>

theorem ensureSession_empty_id_reused:
  "ensureSession (baseWorld\<lparr>sessionPost := PostSessionID []\<rparr>) noSession =
     (Error InvalidSessionID, withSession [],
      [HealthGet healthURL, SessionPost (sessionURL ''model-x'') sessionRequestBody]) \<and>
   ensureSession (baseWorld\<lparr>clock := Minute\<rparr>) (withSession []) =
     (NoError, withSession [], []) \<and>
   snd (snd (ProxyChatCompletion (baseWorld\<lparr>clock := Minute\<rparr>) (withSession [])
               (newResponseWriter True) chatRequest)) = [ReachGet ''http://marketplace:9000'']"
  by (simp add: ensureSession_def baseWorld_def noSession_def withSession_def getModelID_def
        healthProbe_def Since_def Minute_def minDuration_def maxDuration_def Let_def
        ProxyChatCompletion_def chatRequest_def streamFlag_def handleNonStreamingRequest_def
        forwardRequest_def TrimSuffix_def)

subsection \<open>A malformed request body\<close>

text \<open>
  C2, as stated: a body that is not a JSON object triggers no backend call. It fails when no
  fresh session is stored: the handler calls \<open>ensureSession\<close> before it decodes the body, so
  the request \<^verbatim>\<open>not-json\<close> reaches the session-creation endpoint.
\<close>

theorem malformed_body_counterexample:
  "Decode notJson = DecodeError \<and>
   SessionPost (sessionURL ''model-x'') sessionRequestBody
     \<in> set (snd (snd (ProxyChatCompletion baseWorld noSession (newResponseWriter True) notJson)))"
  by (simp add: ProxyChatCompletion_def ensureSession_def baseWorld_def noSession_def
        notJson_def getModelID_def healthProbe_def Let_def)

text \<open>
  C2, amended. For a request whose body the decoder rejects, the handler never makes a
  forward call (neither the reachability probe nor the chat-completion POST), and once the
  body was read and \<open>ensureSession\<close> succeeded it answers status 400 with content type
  \<^verbatim>\<open>application/json\<close> and the body \<^verbatim>\<open>{"error":"Invalid request body"}\<close> followed by a line
  feed; the calls made are those of \<open>ensureSession\<close>.
\<close>

theorem malformed_body_bad_request:
  assumes "Decode r = DecodeError"
  shows "(\<forall>c \<in> set (snd (snd (ProxyChatCompletion w g (newResponseWriter f) r))).
            \<not> isForwardCall c) \<and>
         (ReadAll r \<noteq> None \<and> fst (ensureSession w g) = NoError \<longrightarrow>
            (\<exists>wr'. ProxyChatCompletion w g (newResponseWriter f) r =
                     (Responded wr', snd (ensureSession w g)) \<and>
                   status wr' = Some 400 \<and>
                   sentHeader wr' = [(''Content-Type'', [''application/json''])] \<and>
                   written wr' = encodeError ''Invalid request body''))"
proof (intro conjI ballI impI)
  fix c assume "c \<in> set (snd (snd (ProxyChatCompletion w g (newResponseWriter f) r)))"
  with assms have "ReadAll r \<noteq> None \<and> c \<in> set (snd (snd (ensureSession w g)))"
    by (auto simp: ProxyChatCompletion_def
             split: option.splits prod.splits ensure_result.splits)
  then show "\<not> isForwardCall c" by (blast dest: ensureSession_calls)
next
  assume a: "ReadAll r \<noteq> None \<and> fst (ensureSession w g) = NoError"
  have n: "status (newResponseWriter f) = None" by (simp add: newResponseWriter_def)
  from respondWithError_fresh [OF n, of 400 "''Invalid request body''"]
  obtain wr' where wr: "respondWithError (newResponseWriter f) 400 ''Invalid request body'' =
        Responded wr'"
    and s: "status wr' = Some 400"
    and h: "sentHeader wr' =
              headerSet ''Content-Type'' ''application/json'' (wHeader (newResponseWriter f))"
    and b: "written wr' = written (newResponseWriter f) @ encodeError ''Invalid request body''"
    by auto
  from a assms wr have "ProxyChatCompletion w g (newResponseWriter f) r =
      (Responded wr', snd (ensureSession w g))"
    by (auto simp: ProxyChatCompletion_def
             split: option.splits prod.splits ensure_result.splits)
  moreover from h have "sentHeader wr' = [(''Content-Type'', [''application/json''])]"
    by (simp add: newResponseWriter_def headerSet_def)
  moreover from b have "written wr' = encodeError ''Invalid request body''"
    by (simp add: newResponseWriter_def written_def)
  ultimately show "\<exists>wr'. ProxyChatCompletion w g (newResponseWriter f) r =
                     (Responded wr', snd (ensureSession w g)) \<and>
                   status wr' = Some 400 \<and>
                   sentHeader wr' = [(''Content-Type'', [''application/json''])] \<and>
                   written wr' = encodeError ''Invalid request body''"
    using s by blast
qed

theorem malformed_body_bad_request_witness:
  \<open>Decode notJson = DecodeError \<and>
   ReadAll notJson \<noteq> None \<and>
   ensureSession baseWorld noSession =
     (NoError, withSession ''sess-1'',
      [HealthGet healthURL, SessionPost (sessionURL ''model-x'') sessionRequestBody]) \<and>
   \<not> isForwardCall (HealthGet healthURL) \<and>
   \<not> isForwardCall (SessionPost (sessionURL ''model-x'') sessionRequestBody) \<and>
   (\<exists>wr'. ProxyChatCompletion baseWorld noSession (newResponseWriter True) notJson =
            (Responded wr', snd (ensureSession baseWorld noSession)) \<and>
          status wr' = Some 400 \<and>
          sentHeader wr' = [(''Content-Type'', [''application/json''])] \<and>
          written wr' = ''{"error":"Invalid request body"}'' @ [CHR 0x0A])\<close>
proof -
  have d: "Decode notJson = DecodeError" by (simp add: notJson_def)
  have r: "ReadAll notJson \<noteq> None" by (simp add: notJson_def)
  have e: "ensureSession baseWorld noSession =
     (NoError, withSession ''sess-1'',
      [HealthGet healthURL, SessionPost (sessionURL ''model-x'') sessionRequestBody])"
    by (simp add: ensureSession_def baseWorld_def noSession_def withSession_def
          getModelID_def healthProbe_def Let_def)
  from malformed_body_bad_request [OF d, of baseWorld noSession True] d r e
  show ?thesis by (simp add: encodeError_def)
qed

subsection \<open>Buffered relay\<close>

text \<open>
  C4, as stated: in buffered mode the backend's response reaches the client verbatim for
  every backend status code. It fails for a status below 100: the handler passes the code
  to \<open>WriteHeader\<close>, which panics, and the client gets no response. Here the backend answers
  status 99 with the body \<^verbatim>\<open>hi\<close>.
\<close>

theorem buffered_relay_counterexample:
  "fst (handleNonStreamingRequest (replyWorld 99 ''hi'') (withSession ''sess-0'')
          (newResponseWriter True) []) = Panicked"
  by (simp add: handleNonStreamingRequest_def forwardRequest_def replyWorld_def baseWorld_def
        withSession_def Let_def WriteHeader_def copyHeaders_def newResponseWriter_def)

text \<open>
  C4, amended. In buffered mode, when the URL is configured, the reachability probe
  succeeded, the request could be built, a session with a non-empty id is stored and the
  backend answers the POST with \<open>resp\<close>, whose status code is 101 or lies between 200 and
  999 (non-2xx codes included), the client gets \<open>resp\<close> as it came: that status code, for
  every header key exactly the values it has in \<open>resp\<close>, and the bytes of its body. The
  witness relays status 201 with the body \<^verbatim>\<open>{"id":"abc"}\<close> and status 503 with an error body.
\<close>

theorem buffered_relay_verbatim:
  assumes "MARKETPLACE_URL w \<noteq> []" and "reachable w" and "bodyMarshal w" and "newRequest w"
    and "activeSession g = Some s" and "SessionID s \<noteq> []"
    and "forward w = DoResponse resp"
    and "StatusCode resp = 101 \<or> (200 \<le> StatusCode resp \<and> StatusCode resp \<le> 999)"
    and "distinct (map fst (Header resp))"
  shows "\<exists>wr'. fst (handleNonStreamingRequest w g (newResponseWriter f) body) = Responded wr' \<and>
               status wr' = Some (StatusCode resp) \<and>
               written wr' = Body resp \<and>
               (\<forall>k. headerValues (sentHeader wr') k = headerValues (Header resp) k)"
proof -
  define r where "r = (if StatusCode resp \<noteq> 200 then resp\<lparr>BodyErr := False\<rparr> else resp)"
  have eq: "StatusCode r = StatusCode resp" "Header r = Header resp" "Body r = Body resp"
    by (simp_all add: r_def)
  let ?wr = "copyBody (sendStatus (StatusCode r)
                         (copyHeaders (newResponseWriter f) (Header r))) (Body r)"
  have wh: "WriteHeader (StatusCode r) (copyHeaders (newResponseWriter f) (Header r)) =
              Some (sendStatus (StatusCode r) (copyHeaders (newResponseWriter f) (Header r)))"
    using assms(8) by (auto simp: eq WriteHeader_def copyHeaders_def newResponseWriter_def)
  have "fst (forwardRequest w g body) = Inr r"
    using forwardRequest_response [OF assms(1-7), of body] by (simp add: r_def)
  then have h: "fst (handleNonStreamingRequest w g (newResponseWriter f) body) = Responded ?wr"
    using wh by (cases "forwardRequest w g body") (simp add: handleNonStreamingRequest_def)
  have s: "status ?wr = Some (StatusCode resp)"
    by (simp add: eq copyBody_def WriteBytes_def sendStatus_def copyHeaders_def
          newResponseWriter_def Let_def)
  have b: "written ?wr = Body resp"
    by (simp add: eq copyBody_def WriteBytes_def sendStatus_def copyHeaders_def
          newResponseWriter_def Let_def written_def)
  have sh: "sentHeader ?wr = copyHeaderEntries (Header resp) []"
    by (simp add: eq copyBody_def WriteBytes_def sendStatus_def copyHeaders_def
          newResponseWriter_def Let_def)
  have "\<forall>k. headerValues (sentHeader ?wr) k = headerValues (Header resp) k"
    using headerValues_copyHeaderEntries [OF assms(9), of "[]"]
    by (simp add: sh) (simp add: headerValues_def)
  with h s b show ?thesis by blast
qed

theorem buffered_relay_verbatim_witness:
  \<open>(\<exists>wr'. fst (handleNonStreamingRequest (replyWorld 201 ''{"id":"abc"}'')
                  (withSession ''sess-0'') (newResponseWriter True) []) = Responded wr' \<and>
          status wr' = Some 201 \<and>
          written wr' = ''{"id":"abc"}'' \<and>
          headerValues (sentHeader wr') ''Content-Type'' = [''application/json'']) \<and>
   (\<exists>wr'. fst (handleNonStreamingRequest (replyWorld 503 ''{"error":"busy"}'')
                  (withSession ''sess-0'') (newResponseWriter True) []) = Responded wr' \<and>
          status wr' = Some 503 \<and>
          written wr' = ''{"error":"busy"}'' \<and>
          headerValues (sentHeader wr') ''Content-Type'' = [''application/json''])\<close>
proof -
  have s: "activeSession (withSession ''sess-0'') =
             Some \<lparr>SessionID = ''sess-0'', ModelID = ''model-x'', LastUsed = 0\<rparr>"
    and n: "SessionID \<lparr>SessionID = ''sess-0'', ModelID = ''model-x'', LastUsed = 0\<rparr> \<noteq> []"
    by (simp_all add: withSession_def)
  have g: "\<exists>wr'. fst (handleNonStreamingRequest (replyWorld c b)
                  (withSession ''sess-0'') (newResponseWriter True) []) = Responded wr' \<and>
          status wr' = Some c \<and>
          written wr' = b \<and>
          headerValues (sentHeader wr') ''Content-Type'' = [''application/json'']"
    if c: "c = 101 \<or> (200 \<le> c \<and> c \<le> 999)" for c b
  proof -
    let ?resp = "\<lparr>StatusCode = c, Header = [(''Content-Type'', [''application/json''])],
                  Body = b, BodyErr = False\<rparr>"
    have w: "MARKETPLACE_URL (replyWorld c b) \<noteq> []" "reachable (replyWorld c b)"
      "bodyMarshal (replyWorld c b)" "newRequest (replyWorld c b)"
      "forward (replyWorld c b) = DoResponse ?resp"
      by (simp_all add: replyWorld_def baseWorld_def)
    have st: "StatusCode ?resp = 101 \<or> (200 \<le> StatusCode ?resp \<and> StatusCode ?resp \<le> 999)"
      using c by simp
    have d: "distinct (map fst (Header ?resp))" by simp
    from buffered_relay_verbatim [OF w(1-4) s n w(5) st d, of True "[]"]
    show ?thesis by (auto simp: headerValues_def)
  qed
  have "(201::nat) = 101 \<or> (200 \<le> (201::nat) \<and> (201::nat) \<le> 999)"
    and "(503::nat) = 101 \<or> (200 \<le> (503::nat) \<and> (503::nat) \<le> 999)" by simp_all
  then show ?thesis using g by blast
qed

subsection \<open>The forwarded payload\<close>




subsection \<open>Streaming relay\<close>

text \<open>
  C6. In streaming mode, when the backend's body is a sequence of lines, each ended by a line
  feed (no carriage return before it, shorter than the scanner's buffer), the client
  receives the same lines in the same order, each in one write followed by one flush; the
  writer's headers are \<^verbatim>\<open>Content-Type: text/event-stream\<close>, \<^verbatim>\<open>Cache-Control: no-cache\<close> and
  \<^verbatim>\<open>Connection: keep-alive\<close>, and they are the headers sent with the status line, before
  the first line is written. The witness is the backend that emits \<^verbatim>\<open>data: A\<close>,
  \<^verbatim>\<open>data: B\<close> and \<^verbatim>\<open>data: [DONE]\<close>.
\<close>

theorem streaming_relays_lines:
  assumes "forwardRequest w g body = (Inr resp, calls)"
    and "Body resp = concat (map (\<lambda>l. l @ [CHR 0x0A]) ls)"
    and "\<forall>l \<in> set ls. CHR 0x0A \<notin> set l \<and> (l = [] \<or> last l \<noteq> CHR 0x0D) \<and>
                        length l < MaxScanTokenSize"
    and "\<not> BodyErr resp"
  shows "\<exists>wr'. handleStreamingRequest w g (newResponseWriter True) body =
                 (Responded wr', calls) \<and>
               out wr' = concat (map (\<lambda>l. [Write (l @ [CHR 0x0A]), Flush]) ls) \<and>
               wHeader wr' = [(''Content-Type'', [''text/event-stream'']),
                              (''Cache-Control'', [''no-cache'']),
                              (''Connection'', [''keep-alive''])] \<and>
               (ls \<noteq> [] \<longrightarrow> status wr' = Some 200 \<and> sentHeader wr' = wHeader wr')"
proof -
  let ?wr1 = "setStreamingHeaders (newResponseWriter True)"
  let ?wr2 = "fold writeLine ls ?wr1"
  have f: "flusher ?wr1" "status ?wr1 = None" "out ?wr1 = []"
    and h1: "wHeader ?wr1 = [(''Content-Type'', [''text/event-stream'']),
                              (''Cache-Control'', [''no-cache'']),
                              (''Connection'', [''keep-alive''])]"
    by (simp_all add: setStreamingHeaders_def newResponseWriter_def headerSet_def)
  have sc: "scanLines [] (Body resp) = (ls, True)"
    using scanLines_lines [OF assms(3)] assms(2) by simp
  have h: "handleStreamingRequest w g (newResponseWriter True) body = (Responded ?wr2, calls)"
    using assms(1,4) f(1) sc by (simp add: handleStreamingRequest_def Let_def)
  have o: "out ?wr2 = concat (map (\<lambda>l. [Write (l @ [CHR 0x0A]), Flush]) ls)"
    by (simp add: fold_writeLine_out f(3))
  have hh: "wHeader ?wr2 = wHeader ?wr1" by (rule fold_writeLine_wHeader)
  have s: "ls \<noteq> [] \<longrightarrow> status ?wr2 = Some 200 \<and> sentHeader ?wr2 = wHeader ?wr2"
    using fold_writeLine_first [OF f(2), of ls] hh by simp
  from h o hh h1 s show ?thesis by (metis (no_types, lifting))
qed

theorem streaming_relays_lines_witness:
  "(\<exists>wr'. handleStreamingRequest sseWorld (withSession ''sess-0'') (newResponseWriter True)
            [(''stream'', JBool True)] =
            (Responded wr',
             [ReachGet ''http://marketplace:9000'',
              ForwardPost ''http://marketplace:9000/v1/chat/completions''
                [(''Content-Type'', [''application/json'']), (''Session_id'', [''sess-0''])]
                [(''stream'', JBool True)]]) \<and>
          out wr' = [Write (''data: A'' @ [CHR 0x0A]), Flush,
                     Write (''data: B'' @ [CHR 0x0A]), Flush,
                     Write (''data: [DONE]'' @ [CHR 0x0A]), Flush] \<and>
          status wr' = Some 200 \<and>
          sentHeader wr' = [(''Content-Type'', [''text/event-stream'']),
                            (''Cache-Control'', [''no-cache'']),
                            (''Connection'', [''keep-alive''])])"
proof -
  let ?resp = "\<lparr>StatusCode = 200, Header = [(''Content-Type'', [''text/event-stream''])],
      Body = ''data: A'' @ [CHR 0x0A] @ ''data: B'' @ [CHR 0x0A] @ ''data: [DONE]'' @ [CHR 0x0A],
      BodyErr = False\<rparr>"
  let ?ls = "[''data: A'', ''data: B'', ''data: [DONE]'']"
  have a: "forwardRequest sseWorld (withSession ''sess-0'') [(''stream'', JBool True)] =
     (Inr ?resp,
      [ReachGet ''http://marketplace:9000'',
       ForwardPost ''http://marketplace:9000/v1/chat/completions''
         [(''Content-Type'', [''application/json'']), (''Session_id'', [''sess-0''])]
         [(''stream'', JBool True)]])"
    by (simp add: forwardRequest_def sseWorld_def baseWorld_def withSession_def TrimSuffix_def
          headerSet_def Let_def)
  have b: "Body ?resp = concat (map (\<lambda>l. l @ [CHR 0x0A]) ?ls)" by simp
  have c: "\<forall>l \<in> set ?ls. CHR 0x0A \<notin> set l \<and> (l = [] \<or> last l \<noteq> CHR 0x0D) \<and>
                        length l < MaxScanTokenSize"
    by (simp add: MaxScanTokenSize_def)
  have d: "\<not> BodyErr ?resp" by simp
  from streaming_relays_lines [OF a b c d] show ?thesis by auto
qed

subsection \<open>Configuration and session checks of forwardRequest\<close>

text \<open>
  C7. With \<^verbatim>\<open>MARKETPLACE_URL\<close> unset, \<open>forwardRequest\<close> fails before any network call: neither
  the reachability probe nor the forward POST is issued, and both relay modes answer
  status 500.
\<close>

theorem forwardRequest_url_unset:
  assumes "MARKETPLACE_URL w = []"
  shows "forwardRequest w g body = (Inl MarketplaceURLNotSet, []) \<and>
         snd (handleNonStreamingRequest w g (newResponseWriter f) body) = [] \<and>
         (\<exists>wr'. fst (handleNonStreamingRequest w g (newResponseWriter f) body) = Responded wr' \<and>
                status wr' = Some 500) \<and>
         snd (handleStreamingRequest w g (newResponseWriter f) body) = [] \<and>
         (\<exists>wr'. fst (handleStreamingRequest w g (newResponseWriter f) body) = Responded wr' \<and>
                status wr' = Some 500)"
proof -
  have fr: "forwardRequest w g body = (Inl MarketplaceURLNotSet, [])"
    using assms by (simp add: forwardRequest_def)
  have n: "status (newResponseWriter f) = None" by (simp add: newResponseWriter_def)
  have e: "\<exists>wr'. respondWithError (newResponseWriter f) 500 m = Responded wr' \<and>
                 status wr' = Some 500" for m
    using respondWithError_fresh [OF n, of 500 m] by auto
  show ?thesis
    using fr e by (simp add: handleNonStreamingRequest_def handleStreamingRequest_def)
qed

theorem forwardRequest_url_unset_witness:
  "MARKETPLACE_URL (baseWorld\<lparr>MARKETPLACE_URL := []\<rparr>) = [] \<and>
   forwardRequest (baseWorld\<lparr>MARKETPLACE_URL := []\<rparr>) (withSession ''sess-0'') [] =
     (Inl MarketplaceURLNotSet, []) \<and>
   (\<exists>wr'. fst (handleNonStreamingRequest (baseWorld\<lparr>MARKETPLACE_URL := []\<rparr>)
                  (withSession ''sess-0'') (newResponseWriter True) []) = Responded wr' \<and>
          status wr' = Some 500)"
proof -
  have a: "MARKETPLACE_URL (baseWorld\<lparr>MARKETPLACE_URL := []\<rparr>) = []" by simp
  from forwardRequest_url_unset [OF a, of "withSession ''sess-0''" "[]" True] a
  show ?thesis by simp
qed

text \<open>
  C10. \<open>forwardRequest\<close> checks the stored session again: when it is nil or its id is empty,
  \<open>forwardRequest\<close> returns an error and issues no chat-completion POST; when the URL is
  set, the reachability probe succeeded and the request could be built, that error is
  "no active session" and the probe is the only call made. Both relay modes answer
  status 500.
\<close>

theorem forwardRequest_no_active_session:
  assumes "activeSession g = None \<or> (\<exists>s. activeSession g = Some s \<and> SessionID s = [])"
  shows "(\<exists>e. fst (forwardRequest w g body) = Inl e) \<and>
         (\<forall>c \<in> set (snd (forwardRequest w g body)). \<not> isForwardPost c) \<and>
         (MARKETPLACE_URL w \<noteq> [] \<and> reachable w \<and> bodyMarshal w \<and> newRequest w \<longrightarrow>
            forwardRequest w g body =
              (Inl NoActiveSession,
               [ReachGet (TrimSuffix (MARKETPLACE_URL w) ''/v1/chat/completions'')])) \<and>
         (\<exists>wr'. fst (handleNonStreamingRequest w g (newResponseWriter f) body) = Responded wr' \<and>
                status wr' = Some 500) \<and>
         (\<exists>wr'. fst (handleStreamingRequest w g (newResponseWriter f) body) = Responded wr' \<and>
                status wr' = Some 500)"
proof -
  have n: "status (newResponseWriter f) = None" by (simp add: newResponseWriter_def)
  have e5: "\<exists>wr'. respondWithError (newResponseWriter f) 500 m = Responded wr' \<and>
                 status wr' = Some 500" for m
    using respondWithError_fresh [OF n, of 500 m] by auto
  from assms have fe: "\<exists>e. fst (forwardRequest w g body) = Inl e"
    by (auto simp: forwardRequest_def Let_def)
  then obtain e calls where fr: "forwardRequest w g body = (Inl e, calls)"
    by (cases "forwardRequest w g body") auto
  from assms have np: "\<forall>c \<in> set (snd (forwardRequest w g body)). \<not> isForwardPost c"
    by (auto simp: forwardRequest_def Let_def)
  from assms have ex: "MARKETPLACE_URL w \<noteq> [] \<and> reachable w \<and> bodyMarshal w \<and> newRequest w \<longrightarrow>
            forwardRequest w g body =
              (Inl NoActiveSession,
               [ReachGet (TrimSuffix (MARKETPLACE_URL w) ''/v1/chat/completions'')])"
    by (auto simp: forwardRequest_def Let_def)
  from fr np ex e5 show ?thesis
    by (simp add: handleNonStreamingRequest_def handleStreamingRequest_def)
qed

theorem forwardRequest_no_active_session_witness:
  "(\<exists>s. activeSession (withSession []) = Some s \<and> SessionID s = []) \<and>
   MARKETPLACE_URL baseWorld \<noteq> [] \<and> reachable baseWorld \<and> bodyMarshal baseWorld \<and>
   newRequest baseWorld \<and>
   forwardRequest baseWorld (withSession []) [] =
     (Inl NoActiveSession, [ReachGet ''http://marketplace:9000'']) \<and>
   \<not> isForwardPost (ReachGet ''http://marketplace:9000'') \<and>
   (\<exists>wr'. fst (handleNonStreamingRequest baseWorld (withSession []) (newResponseWriter True) [])
            = Responded wr' \<and> status wr' = Some 500)"
proof -
  have a: "\<exists>s. activeSession (withSession []) = Some s \<and> SessionID s = []"
    by (simp add: withSession_def)
  then have a': "activeSession (withSession []) = None \<or>
      (\<exists>s. activeSession (withSession []) = Some s \<and> SessionID s = [])" ..
  have b: "MARKETPLACE_URL baseWorld \<noteq> [] \<and> reachable baseWorld \<and> bodyMarshal baseWorld \<and>
   newRequest baseWorld" by (simp add: baseWorld_def)
  have t: "TrimSuffix (MARKETPLACE_URL baseWorld) ''/v1/chat/completions'' = ''http://marketplace:9000''"
    by (simp add: baseWorld_def TrimSuffix_def)
  from forwardRequest_no_active_session [OF a', of baseWorld "[]" True] a b t
  show ?thesis by simp
qed

subsection \<open>The advisory health probe\<close>

text \<open>
  C8. Whenever \<open>ensureSession\<close> performs the health probe, whatever the probe's outcome, the
  session-creation call is issued as well, and the result and the stored session are those
  a healthy probe would have given; the process does not end there.
\<close>

theorem health_probe_advisory:
  assumes "HealthGet healthURL \<in> set (snd (snd (ensureSession w g)))"
  shows "SessionPost (sessionURL (MODEL_ID w)) sessionRequestBody
           \<in> set (snd (snd (ensureSession w g))) \<and>
         fst (ensureSession w g) = fst (ensureSession (w\<lparr>healthcheck := ProbeStatus 200\<rparr>) g) \<and>
         fst (snd (ensureSession w g)) =
           fst (snd (ensureSession (w\<lparr>healthcheck := ProbeStatus 200\<rparr>) g)) \<and>
         fst (ensureSession w g) \<noteq> ProcessExit"
  using assms
  by (auto simp: ensureSession_def getModelID_def healthProbe_def Let_def
           split: option.splits if_splits session_reply.splits)

theorem health_probe_advisory_witness:
  "HealthGet healthURL \<in> set (snd (snd (ensureSession (baseWorld\<lparr>healthcheck := ProbeError\<rparr>) noSession))) \<and>
   ensureSession (baseWorld\<lparr>healthcheck := ProbeError\<rparr>) noSession =
     (NoError, withSession ''sess-1'',
      [HealthGet healthURL, PrintHealthFailed,
       SessionPost (sessionURL ''model-x'') sessionRequestBody]) \<and>
   fst (ensureSession (baseWorld\<lparr>healthcheck := ProbeError\<rparr>) noSession) =
     fst (ensureSession (baseWorld\<lparr>healthcheck := ProbeError, healthcheck := ProbeStatus 200\<rparr>) noSession)"
proof -
  have e: "ensureSession (baseWorld\<lparr>healthcheck := ProbeError\<rparr>) noSession =
     (NoError, withSession ''sess-1'',
      [HealthGet healthURL, PrintHealthFailed,
       SessionPost (sessionURL ''model-x'') sessionRequestBody])"
    by (simp add: ensureSession_def baseWorld_def noSession_def withSession_def
          getModelID_def healthProbe_def Let_def)
  then have a: "HealthGet healthURL \<in> set (snd (snd (ensureSession (baseWorld\<lparr>healthcheck := ProbeError\<rparr>) noSession)))"
    by simp
  from health_probe_advisory [OF a] a e show ?thesis by simp
qed

end
